theory Spec2Isabelle
  imports Main "HOL-Library.Word"
begin

unbundle bit_operations_syntax

section \<open>Buffers, slices and the library calls of packets.py\<close>

text \<open>
  A buffer is a sequence of bytes. Every number the decoders store is a Python integer,
  hence an \<^typ>\<open>int\<close>. The two exceptions the module can raise come from the library:
  \<^verbatim>\<open>struct.error\<close> (\<^verbatim>\<open>unpack\<close> on a slice of the wrong size) and
  \<^verbatim>\<open>socket.error\<close> (\<^verbatim>\<open>inet_ntoa\<close> on a slice that is not four bytes long).
\<close>

type_synonym byte = "8 word"
type_synonym buffer = "byte list"

datatype error = StructError | SocketError

text \<open>A bound of a Python slice, clamped to the sequence: negative bounds count from the end.\<close>

definition slice_bound :: "nat \<Rightarrow> int \<Rightarrow> nat" where
  "slice_bound n i = (if i < 0 then nat (max 0 (int n + i)) else min n (nat i))"

text \<open>\<^verbatim>\<open>buff[a:b]\<close>\<close>

definition slice :: "'a list \<Rightarrow> int \<Rightarrow> int \<Rightarrow> 'a list" where
  "slice buff a b =
     (let lo = slice_bound (length buff) a; hi = slice_bound (length buff) b
      in take (hi - lo) (drop lo buff))"

text \<open>\<^verbatim>\<open>buff[a:]\<close>\<close>

definition slice_from :: "'a list \<Rightarrow> int \<Rightarrow> 'a list" where
  "slice_from buff a = drop (slice_bound (length buff) a) buff"

text \<open>Unsigned big-endian (network order, \<^verbatim>\<open>!\<close>) value of a run of bytes.\<close>

fun be_int :: "int \<Rightarrow> buffer \<Rightarrow> int" where
  "be_int acc [] = acc"
| "be_int acc (b # bs) = be_int (acc * 256 + uint b) bs"

text \<open>\<^verbatim>\<open>unpack('!BBH', s)\<close>, \<^verbatim>\<open>unpack('!HH', s)\<close> and \<^verbatim>\<open>unpack('!II', s)\<close>:
  \<^verbatim>\<open>struct.error\<close> unless the slice has exactly the size of the format.\<close>

definition unpack_BBH :: "buffer \<Rightarrow> error + (int \<times> int \<times> int)" where
  "unpack_BBH s =
     (if length s = 4
      then Inr (be_int 0 (take 1 s), be_int 0 (take 1 (drop 1 s)), be_int 0 (drop 2 s))
      else Inl StructError)"

definition unpack_HH :: "buffer \<Rightarrow> error + (int \<times> int)" where
  "unpack_HH s =
     (if length s = 4 then Inr (be_int 0 (take 2 s), be_int 0 (drop 2 s))
      else Inl StructError)"

definition unpack_II :: "buffer \<Rightarrow> error + (int \<times> int)" where
  "unpack_II s =
     (if length s = 8 then Inr (be_int 0 (take 4 s), be_int 0 (drop 4 s))
      else Inl StructError)"

section \<open>TCPPacket\<close>

record tcp_packet =
  tcp_src_port :: int
  tcp_dst_port :: int
  tcp_seq_num :: int
  tcp_ack_num :: int
  tcp_win_size :: int
  tcp_data_offset :: int
  flag_ns :: int
  flag_cwr :: int
  flag_ece :: int
  flag_urg :: int
  flag_ack :: int
  flag_psh :: int
  flag_rst :: int
  flag_syn :: int
  flag_fin :: int
  tcp_checksum :: int
  tcp_urg_ptr :: int
  tcp_options :: buffer
  tcp_total_length :: int

text \<open>\<^verbatim>\<open>TCPPacket.__init__\<close>, which is \<^verbatim>\<open>_parse_header\<close>.\<close>

definition TCPPacket :: "buffer \<Rightarrow> error + tcp_packet" where
  "TCPPacket buff =
     (case unpack_HH (slice buff 0 4) of Inl e \<Rightarrow> Inl e
      | Inr (src_port, dst_port) \<Rightarrow>
     (case unpack_II (slice buff 4 12) of Inl e \<Rightarrow> Inl e
      | Inr (seq_num, ack_num) \<Rightarrow>
     (case unpack_HH (slice buff 12 16) of Inl e \<Rightarrow> Inl e
      | Inr (flags, win_size) \<Rightarrow>
     (let data_offset = flags AND 0xF000 in
     (case unpack_HH (slice buff 16 20) of Inl e \<Rightarrow> Inl e
      | Inr (checksum, urg_ptr) \<Rightarrow>
        Inr \<lparr> tcp_src_port = src_port, tcp_dst_port = dst_port,
              tcp_seq_num = seq_num, tcp_ack_num = ack_num,
              tcp_win_size = win_size,
              tcp_data_offset = data_offset,
              flag_ns = flags AND 0x0100,
              flag_cwr = flags AND 0x0080,
              flag_ece = flags AND 0x0040,
              flag_urg = flags AND 0x0020,
              flag_ack = flags AND 0x0010,
              flag_psh = flags AND 0x0008,
              flag_rst = flags AND 0x0004,
              flag_syn = flags AND 0x0002,
              flag_fin = flags AND 0x0001,
              tcp_checksum = checksum, tcp_urg_ptr = urg_ptr,
              tcp_options = slice buff 20 (data_offset * 4),
              tcp_total_length = int (length buff) \<rparr>)))))"

definition tcp_get_header_len :: "tcp_packet \<Rightarrow> int" where
  "tcp_get_header_len p = tcp_data_offset p * 4"

definition tcp_get_data_len :: "tcp_packet \<Rightarrow> int" where
  "tcp_get_data_len p = tcp_total_length p - tcp_get_header_len p"

definition tcp_get_src_port :: "tcp_packet \<Rightarrow> int" where
  "tcp_get_src_port p = tcp_src_port p"

definition tcp_get_dst_port :: "tcp_packet \<Rightarrow> int" where
  "tcp_get_dst_port p = tcp_dst_port p"

section \<open>UDPPacket\<close>

record udp_packet =
  udp_src_port :: int
  udp_dst_port :: int
  udp_length :: int
  udp_checksum :: int
  udp_total_length :: int

definition UDPPacket :: "buffer \<Rightarrow> error + udp_packet" where
  "UDPPacket buff =
     (case unpack_HH (slice buff 0 4) of Inl e \<Rightarrow> Inl e
      | Inr (src_port, dst_port) \<Rightarrow>
     (case unpack_HH (slice buff 4 8) of Inl e \<Rightarrow> Inl e
      | Inr (len, checksum) \<Rightarrow>
        Inr \<lparr> udp_src_port = src_port, udp_dst_port = dst_port,
              udp_length = len, udp_checksum = checksum,
              udp_total_length = int (length buff) \<rparr>))"

definition udp_get_header_len :: "udp_packet \<Rightarrow> int" where
  "udp_get_header_len p = 8"

definition udp_get_data_len :: "udp_packet \<Rightarrow> int" where
  "udp_get_data_len p = udp_total_length p - udp_get_header_len p"

section \<open>ICMPPacket and the name tables\<close>

record icmp_packet =
  icmp_type :: int
  icmp_code :: int
  icmp_checksum :: int
  icmp_rest :: buffer

definition ICMPPacket :: "buffer \<Rightarrow> error + icmp_packet" where
  "ICMPPacket buf =
     (case unpack_BBH (slice buf 0 4) of Inl e \<Rightarrow> Inl e
      | Inr (type, code, checksum) \<Rightarrow>
        Inr \<lparr> icmp_type = type, icmp_code = code, icmp_checksum = checksum,
              icmp_rest = slice buf 4 8 \<rparr>)"

definition icmp_get_header_len :: "icmp_packet \<Rightarrow> int" where
  "icmp_get_header_len p = 4"

definition icmp_get_data_len :: "icmp_packet \<Rightarrow> int" where
  "icmp_get_data_len p = 4"

text \<open>
  The keys of the two dictionaries: \<^verbatim>\<open>ICMP_TYPES\<close> is keyed by integers,
  \<^verbatim>\<open>ICMP_CODES\<close> by pairs of integers. Python compares an integer and a tuple as
  different, so the two kinds of key are two constructors.
\<close>

datatype key = IntKey int | TupleKey int int

definition ICMP_TYPES :: "(key \<times> string) list" where
  "ICMP_TYPES =
    [(IntKey 0, ''Echo Reply''),
     (IntKey 1, ''Reserved''),
     (IntKey 2, ''Reserved''),
     (IntKey 3, ''Destination Unreachable''),
     (IntKey 4, ''Source Quench''),
     (IntKey 5, ''Redirect''),
     (IntKey 8, ''Echo Request''),
     (IntKey 9, ''Router Advertisement''),
     (IntKey 10, ''Router Solicitation''),
     (IntKey 11, ''Time Exceeded''),
     (IntKey 12, ''Parameter Problem: Bad IP Header''),
     (IntKey 13, ''Timestamp''),
     (IntKey 14, ''Timestamp Reply''),
     (IntKey 15, ''Information Request''),
     (IntKey 16, ''Information Reply''),
     (IntKey 17, ''Address Mask Request''),
     (IntKey 18, ''Address Mask Reply''),
     (IntKey 30, ''Traceroute'')]"

definition ICMP_CODES :: "(key \<times> string) list" where
  "ICMP_CODES =
    [(TupleKey 0 0, ''Echo reply''),
     (TupleKey 3 0, ''Destination network unreachable''),
     (TupleKey 3 1, ''Destination host unreachable''),
     (TupleKey 3 2, ''Destination protocol unreachable''),
     (TupleKey 3 3, ''Destination port unreachable''),
     (TupleKey 3 4, ''Fragmentation required, and DF flag set''),
     (TupleKey 3 5, ''Source route failed''),
     (TupleKey 3 6, ''Destination network unknown''),
     (TupleKey 3 7, ''Destination host unknown''),
     (TupleKey 3 8, ''Source host isolated''),
     (TupleKey 3 9, ''Network administratively prohibited''),
     (TupleKey 3 10, ''Host administratively prohibited''),
     (TupleKey 3 11, ''Network unreachable for TOS''),
     (TupleKey 3 12, ''Host unreachable for TOS''),
     (TupleKey 3 13, ''Communication administratively prohibited''),
     (TupleKey 3 14, ''Host Precedence Violation''),
     (TupleKey 3 15, ''Precedence cutoff in effect''),
     (TupleKey 5 0, ''Redirect Datagram for the Network''),
     (TupleKey 5 1, ''Redirect Datagram for the Host''),
     (TupleKey 5 2, ''Redirect Datagram for the TOS & network''),
     (TupleKey 5 3, ''Redirect Datagram for the TOS & host''),
     (TupleKey 11 0, ''TTL expired in transit''),
     (TupleKey 11 1, ''Fragment reassembly time exceeded''),
     (TupleKey 12 0, ''Pointer indicates the error''),
     (TupleKey 12 1, ''Missing a required option''),
     (TupleKey 12 2, ''Bad length'')]"

text \<open>\<^verbatim>\<open>d.get(k, default)\<close>\<close>

definition dict_get :: "('k \<times> 'v) list \<Rightarrow> 'k \<Rightarrow> 'v \<Rightarrow> 'v" where
  "dict_get d k dflt = (case map_of d k of Some v \<Rightarrow> v | None \<Rightarrow> dflt)"

text \<open>The conversion \<^verbatim>\<open>%d\<close> of an integer: its decimal digits, after a minus sign if negative.\<close>

fun dec_digits :: "nat \<Rightarrow> string" where
  "dec_digits n =
     (if n < 10 then [''0123456789'' ! n]
      else dec_digits (n div 10) @ [''0123456789'' ! (n mod 10)])"

declare dec_digits.simps [simp del]

definition fmt_d :: "int \<Rightarrow> string" where
  "fmt_d i = (if i < 0 then CHR ''-'' # dec_digits (nat (- i)) else dec_digits (nat i))"

text \<open>\<^verbatim>\<open>ICMPPacket.__unicode__\<close>\<close>

definition icmp_unicode :: "icmp_packet \<Rightarrow> string" where
  "icmp_unicode p =
     ''ICMP Type '' @ fmt_d (icmp_type p)
     @ '' ('' @ dict_get ICMP_TYPES (IntKey (icmp_type p)) ''Unknown''
     @ '') Code '' @ fmt_d (icmp_code p)
     @ '' ('' @ dict_get ICMP_CODES (IntKey (icmp_code p)) ''Unknown'' @ '')''"

section \<open>The payload dispatcher\<close>

text \<open>The protocol numbers of the \<^verbatim>\<open>socket\<close> module.\<close>

definition IPPROTO_ICMP :: int where "IPPROTO_ICMP = 1"
definition IPPROTO_TCP :: int where "IPPROTO_TCP = 6"
definition IPPROTO_UDP :: int where "IPPROTO_UDP = 17"

datatype payload = TCP tcp_packet | UDP udp_packet | ICMP icmp_packet

text \<open>\<^verbatim>\<open>None\<close> is the absent payload; an exception of a decoder passes through.\<close>

definition payload_builder :: "buffer \<Rightarrow> int \<Rightarrow> error + payload option" where
  "payload_builder payload_buff protocol =
     (if protocol = IPPROTO_TCP then
        (case TCPPacket payload_buff of Inl e \<Rightarrow> Inl e | Inr p \<Rightarrow> Inr (Some (TCP p)))
      else if protocol = IPPROTO_UDP then
        (case UDPPacket payload_buff of Inl e \<Rightarrow> Inl e | Inr p \<Rightarrow> Inr (Some (UDP p)))
      else if protocol = IPPROTO_ICMP then
        (case ICMPPacket payload_buff of Inl e \<Rightarrow> Inl e | Inr p \<Rightarrow> Inr (Some (ICMP p)))
      else Inr None)"

section \<open>IPPacket\<close>

text \<open>\<^verbatim>\<open>socket.inet_ntoa\<close>: the dotted quad of four bytes.\<close>

definition inet_ntoa :: "buffer \<Rightarrow> error + string" where
  "inet_ntoa s =
     (if length s = 4
      then Inr (fmt_d (uint (s ! 0)) @ ''.'' @ fmt_d (uint (s ! 1)) @ ''.''
                @ fmt_d (uint (s ! 2)) @ ''.'' @ fmt_d (uint (s ! 3)))
      else Inl SocketError)"

text \<open>The attributes \<^verbatim>\<open>_parse_header\<close> sets; \<^verbatim>\<open>__init__\<close> then adds the payload.\<close>

record ip_header =
  ip_total_length :: int
  ip_version :: int
  ip_ihl :: int
  ip_dscp :: int
  ip_ecn :: int
  ip_id :: int
  ip_flags :: int
  ip_frag_offset :: int
  ip_ttl :: int
  ip_protocol :: int
  ip_checksum :: int
  ip_src_ip :: string
  ip_dst_ip :: string
  ip_options :: buffer

record ip_packet = ip_header +
  ip_payload :: "payload option"

definition ip_parse_header :: "buffer \<Rightarrow> error + ip_header" where
  "ip_parse_header buff =
     (case unpack_BBH (slice buff 0 4) of Inl e \<Rightarrow> Inl e
      | Inr (v_ihl, dscp_ecn, total_length) \<Rightarrow>
     (let ihl = v_ihl AND 0xF in
     (case unpack_HH (slice buff 4 8) of Inl e \<Rightarrow> Inl e
      | Inr (ident, flag_frag) \<Rightarrow>
     (case unpack_BBH (slice buff 8 12) of Inl e \<Rightarrow> Inl e
      | Inr (ttl, protocol, checksum) \<Rightarrow>
     (case inet_ntoa (slice buff 12 16) of Inl e \<Rightarrow> Inl e
      | Inr src_ip \<Rightarrow>
     (case inet_ntoa (slice buff 16 20) of Inl e \<Rightarrow> Inl e
      | Inr dst_ip \<Rightarrow>
        Inr \<lparr> ip_total_length = total_length,
              ip_version = (drop_bit 4 v_ihl) AND 0xF,
              ip_ihl = ihl,
              ip_dscp = (drop_bit 3 dscp_ecn) AND 0x1F,
              ip_ecn = dscp_ecn AND 0x7,
              ip_id = ident,
              ip_flags = (drop_bit 13 flag_frag) AND 0x7,
              ip_frag_offset = flag_frag AND 0x1FFF,
              ip_ttl = ttl, ip_protocol = protocol, ip_checksum = checksum,
              ip_src_ip = src_ip, ip_dst_ip = dst_ip,
              ip_options = slice buff 20 (ihl * 4) \<rparr>))))))"

definition ip_get_header_len :: "'a ip_header_scheme \<Rightarrow> int" where
  "ip_get_header_len p = ip_ihl p * 4"

definition ip_get_data_len :: "'a ip_header_scheme \<Rightarrow> int" where
  "ip_get_data_len p = ip_total_length p - ip_ihl p * 4"

definition ip_get_protocol :: "'a ip_header_scheme \<Rightarrow> int" where
  "ip_get_protocol p = ip_protocol p"

definition ip_get_payload :: "ip_packet \<Rightarrow> payload option" where
  "ip_get_payload p = ip_payload p"

text \<open>\<^verbatim>\<open>IPPacket.__init__\<close>: no exception of the payload decoder is caught.\<close>

definition IPPacket :: "buffer \<Rightarrow> error + ip_packet" where
  "IPPacket buff =
     (case ip_parse_header buff of Inl e \<Rightarrow> Inl e
      | Inr h \<Rightarrow>
     (case payload_builder (slice_from buff (ip_get_header_len h)) (ip_protocol h) of
        Inl e \<Rightarrow> Inl e
      | Inr pl \<Rightarrow> Inr (ip_header.extend h (ip_packet.fields pl))))"

section \<open>The flow key\<close>

definition to_tuple :: "ip_packet \<Rightarrow> bool \<Rightarrow> (string \<times> int \<times> string \<times> int) option" where
  "to_tuple ippacket flip =
     (case ip_get_payload ippacket of
        Some (TCP payload) \<Rightarrow>
          (if \<not> flip then
             Some (ip_src_ip ippacket, tcp_src_port payload,
                   ip_dst_ip ippacket, tcp_dst_port payload)
           else
             Some (ip_dst_ip ippacket, tcp_dst_port payload,
                   ip_src_ip ippacket, tcp_src_port payload))
      | _ \<Rightarrow> None)"

section \<open>Two datagrams\<close>

text \<open>
  Inputs for the concrete checks below. The first is an IPv4 datagram from 10.0.0.1 to
  10.0.0.2 with protocol 6, carrying a 20-byte TCP header from port 54321 to port 80. The
  second has protocol 17 and carries an 8-byte UDP header.
\<close>

definition example_tcp_datagram :: buffer where
  "example_tcp_datagram =
     [0x45, 0, 0, 40, 0, 1, 0x40, 0, 64, 6, 0, 0, 10, 0, 0, 1, 10, 0, 0, 2,
      0xD4, 0x31, 0, 80, 0, 0, 0, 1, 0, 0, 0, 2, 0x50, 0x18, 0x20, 0, 0, 0, 0, 0]"

definition example_udp_datagram :: buffer where
  "example_udp_datagram =
     [0x45, 0, 0, 28, 0, 1, 0x40, 0, 64, 17, 0, 0, 10, 0, 0, 1, 10, 0, 0, 2,
      0xD4, 0x31, 0, 53, 0, 8, 0, 0]"

section \<open>Slices at fixed offsets\<close>

text \<open>
  Every slice the decoders take has constant, non-negative bounds. The lemmas below say
  what each library call returns on such a slice, in terms of the bytes of the buffer.
\<close>

lemma slice_nonneg:
  "0 \<le> a \<Longrightarrow> 0 \<le> b \<Longrightarrow> slice buff a b = take (nat b - nat a) (drop (nat a) buff)"
  by (auto simp: slice_def slice_bound_def Let_def min_def)

lemma slice_nat: "slice buff (int n) (int n + int k) = take k (drop n buff)"
  using slice_nonneg [of "int n" "int n + int k" buff] by (simp add: nat_add_distrib)

lemma be_int_1: "length s = 1 \<Longrightarrow> be_int 0 s = uint (s ! 0)"
  by (cases s) auto

lemma be_int_2: "length s = 2 \<Longrightarrow> be_int 0 s = 256 * uint (s ! 0) + uint (s ! 1)"
  by (cases s; cases "tl s") auto

lemma be_int_4:
  "length s = 4 \<Longrightarrow>
   be_int 0 s = 16777216 * uint (s ! 0) + 65536 * uint (s ! 1) + 256 * uint (s ! 2) + uint (s ! 3)"
  by (cases s; cases "tl s"; cases "tl (tl s)"; cases "tl (tl (tl s))") auto

lemma unpack_HH_at:
  "unpack_HH (slice buff (int n) (int n + int 4)) =
     (if n + 4 \<le> length buff
      then Inr (256 * uint (buff ! n) + uint (buff ! (n + 1)),
                256 * uint (buff ! (n + 2)) + uint (buff ! (n + 3)))
      else Inl StructError)"
  unfolding slice_nat by (auto simp: unpack_HH_def be_int_2 min_def)

lemma unpack_BBH_at:
  "unpack_BBH (slice buff (int n) (int n + int 4)) =
     (if n + 4 \<le> length buff
      then Inr (uint (buff ! n), uint (buff ! (n + 1)),
                256 * uint (buff ! (n + 2)) + uint (buff ! (n + 3)))
      else Inl StructError)"
  unfolding slice_nat by (auto simp: unpack_BBH_def be_int_1 be_int_2 min_def)

lemma unpack_II_at:
  "unpack_II (slice buff (int n) (int n + int 8)) =
     (if n + 8 \<le> length buff
      then Inr (16777216 * uint (buff ! n) + 65536 * uint (buff ! (n + 1))
                  + 256 * uint (buff ! (n + 2)) + uint (buff ! (n + 3)),
                16777216 * uint (buff ! (n + 4)) + 65536 * uint (buff ! (n + 5))
                  + 256 * uint (buff ! (n + 6)) + uint (buff ! (n + 7)))
      else Inl StructError)"
  unfolding slice_nat by (auto simp: unpack_II_def be_int_4 min_def)

lemma inet_ntoa_at:
  "inet_ntoa (slice buff (int n) (int n + int 4)) =
     (if n + 4 \<le> length buff
      then Inr (fmt_d (uint (buff ! n)) @ ''.'' @ fmt_d (uint (buff ! (n + 1))) @ ''.''
                @ fmt_d (uint (buff ! (n + 2))) @ ''.'' @ fmt_d (uint (buff ! (n + 3))))
      else Inl SocketError)"
  unfolding slice_nat by (auto simp: inet_ntoa_def min_def)

lemma unpack_HH_0:
  "unpack_HH (slice buff 0 4) =
     (if 4 \<le> length buff
      then Inr (256 * uint (buff ! 0) + uint (buff ! 1), 256 * uint (buff ! 2) + uint (buff ! 3))
      else Inl StructError)"
  using unpack_HH_at [of buff 0] by (simp add: numeral_2_eq_2)

lemma unpack_HH_4:
  "unpack_HH (slice buff 4 8) =
     (if 8 \<le> length buff
      then Inr (256 * uint (buff ! 4) + uint (buff ! 5), 256 * uint (buff ! 6) + uint (buff ! 7))
      else Inl StructError)"
  using unpack_HH_at [of buff 4] by simp

lemma unpack_HH_12:
  "unpack_HH (slice buff 12 16) =
     (if 16 \<le> length buff
      then Inr (256 * uint (buff ! 12) + uint (buff ! 13),
                256 * uint (buff ! 14) + uint (buff ! 15))
      else Inl StructError)"
  using unpack_HH_at [of buff 12] by simp

lemma unpack_HH_16:
  "unpack_HH (slice buff 16 20) =
     (if 20 \<le> length buff
      then Inr (256 * uint (buff ! 16) + uint (buff ! 17),
                256 * uint (buff ! 18) + uint (buff ! 19))
      else Inl StructError)"
  using unpack_HH_at [of buff 16] by simp

lemma unpack_II_4:
  "unpack_II (slice buff 4 12) =
     (if 12 \<le> length buff
      then Inr (16777216 * uint (buff ! 4) + 65536 * uint (buff ! 5)
                  + 256 * uint (buff ! 6) + uint (buff ! 7),
                16777216 * uint (buff ! 8) + 65536 * uint (buff ! 9)
                  + 256 * uint (buff ! 10) + uint (buff ! 11))
      else Inl StructError)"
  using unpack_II_at [of buff 4] by simp

lemma unpack_BBH_0:
  "unpack_BBH (slice buff 0 4) =
     (if 4 \<le> length buff
      then Inr (uint (buff ! 0), uint (buff ! 1), 256 * uint (buff ! 2) + uint (buff ! 3))
      else Inl StructError)"
  using unpack_BBH_at [of buff 0] by (simp add: numeral_2_eq_2)

lemma unpack_BBH_8:
  "unpack_BBH (slice buff 8 12) =
     (if 12 \<le> length buff
      then Inr (uint (buff ! 8), uint (buff ! 9), 256 * uint (buff ! 10) + uint (buff ! 11))
      else Inl StructError)"
  using unpack_BBH_at [of buff 8] by simp

lemma inet_ntoa_12:
  "inet_ntoa (slice buff 12 16) =
     (if 16 \<le> length buff
      then Inr (fmt_d (uint (buff ! 12)) @ ''.'' @ fmt_d (uint (buff ! 13)) @ ''.''
                @ fmt_d (uint (buff ! 14)) @ ''.'' @ fmt_d (uint (buff ! 15)))
      else Inl SocketError)"
  using inet_ntoa_at [of buff 12] by simp

lemma inet_ntoa_16:
  "inet_ntoa (slice buff 16 20) =
     (if 20 \<le> length buff
      then Inr (fmt_d (uint (buff ! 16)) @ ''.'' @ fmt_d (uint (buff ! 17)) @ ''.''
                @ fmt_d (uint (buff ! 18)) @ ''.'' @ fmt_d (uint (buff ! 19)))
      else Inl SocketError)"
  using inet_ntoa_at [of buff 16] by simp

lemmas unpack_simps = unpack_HH_0 unpack_HH_4 unpack_HH_12 unpack_HH_16 unpack_II_4
  unpack_BBH_0 unpack_BBH_8 inet_ntoa_12 inet_ntoa_16

lemma TCPPacket_short: "length buff < 20 \<Longrightarrow> TCPPacket buff = Inl StructError"
  by (simp add: TCPPacket_def unpack_simps Let_def)

lemma UDPPacket_short: "length buff < 8 \<Longrightarrow> UDPPacket buff = Inl StructError"
  by (simp add: UDPPacket_def unpack_simps)

lemma ICMPPacket_short: "length buff < 4 \<Longrightarrow> ICMPPacket buff = Inl StructError"
  by (simp add: ICMPPacket_def unpack_simps)

lemma ip_parse_header_short:
  "length buff < 20 \<Longrightarrow>
   ip_parse_header buff = Inl (if length buff < 12 then StructError else SocketError)"
  by (simp add: ip_parse_header_def unpack_simps Let_def)

section \<open>Masks as arithmetic, and the IP decoder on a full header\<close>

lemma and_mask_mod:
  fixes x :: int
  shows "x AND (2 ^ n - 1) = x mod 2 ^ n"
  by (simp only: mask_eq_exp_minus_1 [symmetric] take_bit_eq_mask [symmetric] take_bit_eq_mod)

lemma and_low_bits:
  fixes x :: int
  shows "x AND 15 = x mod 16" and "x AND 7 = x mod 8"
  using and_mask_mod [of x 4] and_mask_mod [of x 3] by simp_all

lemma byte_range: "0 \<le> uint (b :: byte)" "uint (b :: byte) < 256"
  using uint_bounded [of b] by simp_all

lemma top5_of_byte: "drop_bit 3 (uint (b :: byte)) AND 0x1F = uint b div 8"
proof -
  have "uint b div 8 < 32" "0 \<le> uint b div 8"
    using byte_range [of b] by (simp_all add: div_int_pos_iff)
  then show ?thesis
    using and_mask_mod [of "uint b div 8" 5] by (simp add: drop_bit_eq_div)
qed

lemma slice_from_nonneg: "0 \<le> a \<Longrightarrow> slice_from buff a = drop (nat a) buff"
  by (simp add: slice_from_def slice_bound_def min_def)

lemma ip_parse_header_long:
  assumes "20 \<le> length buff"
  shows "\<exists>h. ip_parse_header buff = Inr h
     \<and> ip_ihl h = uint (buff ! 0) mod 16
     \<and> ip_dscp h = uint (buff ! 1) div 8
     \<and> ip_ecn h = uint (buff ! 1) mod 8
     \<and> ip_protocol h = uint (buff ! 9)"
  using assms
  by (simp add: ip_parse_header_def unpack_simps Let_def and_low_bits top5_of_byte)

lemma ip_packet_of_header:
  "ip_ihl (ip_header.extend h (ip_packet.fields pl)) = ip_ihl h"
  "ip_dscp (ip_header.extend h (ip_packet.fields pl)) = ip_dscp h"
  "ip_ecn (ip_header.extend h (ip_packet.fields pl)) = ip_ecn h"
  "ip_protocol (ip_header.extend h (ip_packet.fields pl)) = ip_protocol h"
  "ip_src_ip (ip_header.extend h (ip_packet.fields pl)) = ip_src_ip h"
  "ip_dst_ip (ip_header.extend h (ip_packet.fields pl)) = ip_dst_ip h"
  "ip_payload (ip_header.extend h (ip_packet.fields pl)) = pl"
  by (simp_all add: ip_header.defs ip_packet.defs)

lemma IPPacket_short:
  "length buff < 20 \<Longrightarrow>
   IPPacket buff = Inl (if length buff < 12 then StructError else SocketError)"
  by (simp add: IPPacket_def ip_parse_header_short)

lemma IPPacket_long:
  assumes "20 \<le> length buff"
  shows "\<exists>h. ip_parse_header buff = Inr h
     \<and> ip_ihl h = uint (buff ! 0) mod 16
     \<and> ip_dscp h = uint (buff ! 1) div 8
     \<and> ip_ecn h = uint (buff ! 1) mod 8
     \<and> ip_protocol h = uint (buff ! 9)
     \<and> IPPacket buff =
        (case payload_builder (drop (nat (uint (buff ! 0) mod 16 * 4)) buff) (uint (buff ! 9)) of
           Inl e \<Rightarrow> Inl e
         | Inr pl \<Rightarrow> Inr (ip_header.extend h (ip_packet.fields pl)))"
proof -
  from ip_parse_header_long [OF assms] obtain h where h: "ip_parse_header buff = Inr h"
    "ip_ihl h = uint (buff ! 0) mod 16" "ip_dscp h = uint (buff ! 1) div 8"
    "ip_ecn h = uint (buff ! 1) mod 8" "ip_protocol h = uint (buff ! 9)"
    by blast
  have "0 \<le> uint (buff ! 0) mod 16 * 4" by simp
  then have "slice_from buff (ip_get_header_len h) = drop (nat (uint (buff ! 0) mod 16 * 4)) buff"
    by (simp add: ip_get_header_len_def h slice_from_nonneg)
  with h show ?thesis
    by (simp add: IPPacket_def)
qed

section \<open>The transport decoders on a full header\<close>

lemma TCPPacket_long:
  assumes "20 \<le> length buff"
  shows "\<exists>t. TCPPacket buff = Inr t
     \<and> tcp_src_port t = 256 * uint (buff ! 0) + uint (buff ! 1)
     \<and> tcp_dst_port t = 256 * uint (buff ! 2) + uint (buff ! 3)
     \<and> tcp_data_offset t = (256 * uint (buff ! 12) + uint (buff ! 13)) AND 0xF000
     \<and> flag_ns t = (256 * uint (buff ! 12) + uint (buff ! 13)) AND 0x0100
     \<and> flag_cwr t = (256 * uint (buff ! 12) + uint (buff ! 13)) AND 0x0080
     \<and> flag_ece t = (256 * uint (buff ! 12) + uint (buff ! 13)) AND 0x0040
     \<and> flag_urg t = (256 * uint (buff ! 12) + uint (buff ! 13)) AND 0x0020
     \<and> flag_ack t = (256 * uint (buff ! 12) + uint (buff ! 13)) AND 0x0010
     \<and> flag_psh t = (256 * uint (buff ! 12) + uint (buff ! 13)) AND 0x0008
     \<and> flag_rst t = (256 * uint (buff ! 12) + uint (buff ! 13)) AND 0x0004
     \<and> flag_syn t = (256 * uint (buff ! 12) + uint (buff ! 13)) AND 0x0002
     \<and> flag_fin t = (256 * uint (buff ! 12) + uint (buff ! 13)) AND 0x0001
     \<and> tcp_total_length t = int (length buff)"
  using assms by (simp add: TCPPacket_def unpack_simps Let_def)

lemma UDPPacket_long:
  "8 \<le> length buff \<Longrightarrow>
   \<exists>u. UDPPacket buff = Inr u \<and> udp_total_length u = int (length buff)"
  by (simp add: UDPPacket_def unpack_simps)

lemma ICMPPacket_long:
  "4 \<le> length buff \<Longrightarrow>
   \<exists>i. ICMPPacket buff = Inr i \<and> icmp_type i = uint (buff ! 0) \<and> icmp_code i = uint (buff ! 1)"
  by (simp add: ICMPPacket_def unpack_simps)

text \<open>The two bytes at 12 and 13, read in network order, are the 16-bit word they spell.\<close>

lemma uint_flags_field:
  "uint (word_cat (a :: byte) (b :: byte) :: 16 word) = 256 * uint a + uint b"
proof -
  have r: "0 \<le> uint a" "uint a < 256" "0 \<le> uint b" "uint b < 256"
    using byte_range by auto
  have "uint (word_cat a b :: 16 word) = take_bit 16 (concat_bit 8 (uint b) (uint a))"
    unfolding word_cat_eq' uint_word_of_int_eq by simp
  also have "\<dots> = (uint b mod 256 + uint a * 256) mod 65536"
    by (simp add: concat_bit_eq take_bit_eq_mod push_bit_eq_mult)
  also have "\<dots> = 256 * uint a + uint b"
    using r by simp
  finally show ?thesis .
qed

lemma and_push_bit_int:
  fixes x y :: int
  shows "x AND push_bit n y = push_bit n (drop_bit n x AND y)"
  by (rule bit_eqI) (auto simp: bit_simps)

lemma high_nibble: 
  fixes a b :: byte
  shows "(256 * uint a + uint b) AND 0xF000 = 4096 * (uint a div 16)"
proof -
  have r: "0 \<le> uint a" "uint a < 256" "0 \<le> uint b" "uint b < 256"
    using byte_range by auto
  have "(256 * uint a + uint b) div 256 = uint a"
    using r by simp
  moreover have "(256 * uint a + uint b) div 4096 = (256 * uint a + uint b) div 256 div 16"
    using zdiv_zmult2_eq [of 16 "256 * uint a + uint b" 256] by simp
  ultimately have d: "(256 * uint a + uint b) div 4096 = uint a div 16"
    by simp
  have "uint a div 16 < 16" "0 \<le> uint a div 16"
    using r by (simp_all add: div_int_pos_iff)
  with d have "drop_bit 12 (256 * uint a + uint b) AND 15 = uint a div 16"
    by (simp add: drop_bit_eq_div and_low_bits)
  then show ?thesis
    using and_push_bit_int [of "256 * uint a + uint b" 12 15]
    by (simp add: push_bit_eq_mult)
qed

text \<open>
  What the TCP decoder stores as data offset on any full header: the top nibble is
  masked but never shifted down, so the stored value is 4096 times the word count.
\<close>

lemma tcp_lengths_general:
  assumes "20 \<le> length buff"
  shows "\<exists>t. TCPPacket buff = Inr t
     \<and> tcp_data_offset t = 4096 * (uint (buff ! 12) div 16)
     \<and> tcp_get_header_len t = 16384 * (uint (buff ! 12) div 16)
     \<and> tcp_get_data_len t = int (length buff) - 16384 * (uint (buff ! 12) div 16)"
proof -
  from TCPPacket_long [OF assms] obtain t where t: "TCPPacket buff = Inr t"
    "tcp_data_offset t = (256 * uint (buff ! 12) + uint (buff ! 13)) AND 0xF000"
    "tcp_total_length t = int (length buff)"
    by blast
  from t(2) have "tcp_data_offset t = 4096 * (uint (buff ! 12) div 16)"
    by (simp only: high_nibble)
  with t(1,3) show ?thesis
    by (simp add: tcp_get_header_len_def tcp_get_data_len_def)
qed

text \<open>The fields of a decoded IPPacket that the claims below speak about.\<close>

lemma IPPacket_fields:
  assumes "20 \<le> length buff" and "IPPacket buff = Inr p"
  shows "ip_ihl p = uint (buff ! 0) mod 16"
    and "ip_dscp p = uint (buff ! 1) div 8"
    and "ip_ecn p = uint (buff ! 1) mod 8"
    and "ip_protocol p = uint (buff ! 9)"
proof -
  from IPPacket_long [OF assms(1)] obtain h where h: "ip_ihl h = uint (buff ! 0) mod 16"
    "ip_dscp h = uint (buff ! 1) div 8" "ip_ecn h = uint (buff ! 1) mod 8"
    "ip_protocol h = uint (buff ! 9)"
    and p: "IPPacket buff =
        (case payload_builder (drop (nat (uint (buff ! 0) mod 16 * 4)) buff) (uint (buff ! 9)) of
           Inl e \<Rightarrow> Inl e
         | Inr pl \<Rightarrow> Inr (ip_header.extend h (ip_packet.fields pl)))"
    by (elim exE conjE)
  from p assms(2) obtain pl where "p = ip_header.extend h (ip_packet.fields pl)"
    by (auto split: sum.splits)
  with h show "ip_ihl p = uint (buff ! 0) mod 16" "ip_dscp p = uint (buff ! 1) div 8"
    "ip_ecn p = uint (buff ! 1) mod 8" "ip_protocol p = uint (buff ! 9)"
    by (simp_all add: ip_packet_of_header)
qed

text \<open>Decoding the two example datagrams.\<close>

lemma fmt_d_small: "fmt_d 10 = ''10''" "fmt_d 0 = ''0''" "fmt_d 1 = ''1''" "fmt_d 2 = ''2''"
  by (simp_all add: fmt_d_def dec_digits.simps)

lemma example_tcp_is_decoded:
  "IPPacket example_tcp_datagram = Inr (projr (IPPacket example_tcp_datagram))"
  by (simp add: example_tcp_datagram_def IPPacket_def ip_parse_header_def unpack_simps Let_def
      ip_get_header_len_def slice_from_nonneg payload_builder_def IPPROTO_TCP_def TCPPacket_def)

lemma example_tcp_decoded:
  "ip_payload (projr (IPPacket example_tcp_datagram))
     = Some (TCP (projr (TCPPacket (drop 20 example_tcp_datagram))))"
  "ip_src_ip (projr (IPPacket example_tcp_datagram)) = ''10.0.0.1''"
  "ip_dst_ip (projr (IPPacket example_tcp_datagram)) = ''10.0.0.2''"
  "tcp_src_port (projr (TCPPacket (drop 20 example_tcp_datagram))) = 54321"
  "tcp_dst_port (projr (TCPPacket (drop 20 example_tcp_datagram))) = 80"
  by (simp_all add: example_tcp_datagram_def IPPacket_def ip_parse_header_def unpack_simps Let_def
      ip_get_header_len_def slice_from_nonneg payload_builder_def IPPROTO_TCP_def TCPPacket_def
      ip_packet_of_header fmt_d_small)

lemma example_udp_decoded:
  "ip_payload (projr (IPPacket example_udp_datagram))
     = Some (UDP (projr (UDPPacket (drop 20 example_udp_datagram))))"
  by (simp_all add: example_udp_datagram_def IPPacket_def ip_parse_header_def unpack_simps Let_def
      ip_get_header_len_def slice_from_nonneg payload_builder_def IPPROTO_TCP_def IPPROTO_UDP_def
      UDPPacket_def ip_packet_of_header)

section \<open>Claims\<close>

text \<open>
  C1. Claimed: for a TCP slice of length \<open>L \<ge> 20\<close> whose flags/offset field at bytes 12-13
  has top nibble \<open>d\<close>, the decoded packet has data offset \<open>d\<close>, header length \<open>d * 4\<close>
  and data length \<open>L - d * 4\<close>. The decoder masks the field with \<open>0xF000\<close> and does not
  shift the result. On the 20-byte segment below the field is \<open>0x5018\<close>, so \<open>d = 5\<close>; the
  claim gives data offset 5, header length 20 and data length 0, the decoder gives
  20480, 81920 and -81900.
\<close>

theorem tcp_data_offset_not_shifted:
  "map_sum id (\<lambda>t. (tcp_data_offset t, tcp_get_header_len t, tcp_get_data_len t))
     (TCPPacket [0xD4, 0x31, 0, 80, 0, 0, 0, 1, 0, 0, 0, 2, 0x50, 0x18, 0x20, 0, 0, 0, 0, 0])
   = Inr (20480, 81920, - 81900)"
proof -
  have "20 \<le> length [0xD4, 0x31, 0, 80, 0, 0, 0, 1, 0, 0, 0, 2, 0x50, 0x18, 0x20, 0, 0, 0, 0, 0 :: byte]"
    by simp
  from tcp_lengths_general [OF this] show ?thesis
    by auto
qed

text \<open>
  C2. Claimed: a slice shorter than 20 bytes (IP), 20 (TCP), 8 (UDP) or 8 (ICMP) makes the
  decoder of that layer raise, with no entity produced. The ICMP decoder unpacks bytes 0-3
  and takes \<^verbatim>\<open>buf[4:8]\<close> as it comes, so a slice of four bytes is decoded, with an
  empty rest field.
\<close>

theorem icmp_decodes_four_bytes:
  "length [8, 0, 0, 0 :: byte] < 8
   \<and> ICMPPacket [8, 0, 0, 0]
       = Inr \<lparr> icmp_type = 8, icmp_code = 0, icmp_checksum = 0, icmp_rest = [] \<rparr>"
  by (simp add: ICMPPacket_def unpack_BBH_def slice_nonneg)

text \<open>
  C2, as the code has it: the minimum is 20 bytes for IP, 20 for TCP, 8 for UDP and 4 for
  ICMP. Below it the decoder raises the exception of the library call that meets the
  short slice (\<^verbatim>\<open>struct.error\<close>; \<^verbatim>\<open>socket.error\<close> for an IP buffer of 12 to 19
  bytes) and returns no entity; from four bytes on, the ICMP decoder returns a packet.
\<close>

theorem short_slice_raises:
  "(length buff < 20 \<longrightarrow>
      ip_parse_header buff = Inl (if length buff < 12 then StructError else SocketError)
      \<and> IPPacket buff = Inl (if length buff < 12 then StructError else SocketError))
   \<and> (length buff < 20 \<longrightarrow> TCPPacket buff = Inl StructError)
   \<and> (length buff < 8 \<longrightarrow> UDPPacket buff = Inl StructError)
   \<and> (length buff < 4 \<longrightarrow> ICMPPacket buff = Inl StructError)
   \<and> (4 \<le> length buff \<longrightarrow> (\<exists>i. ICMPPacket buff = Inr i))"
  using ICMPPacket_long [of buff]
  by (auto simp: ip_parse_header_short IPPacket_short TCPPacket_short UDPPacket_short
      ICMPPacket_short)

theorem short_slice_raises_witness:
  "length [0x45, 0, 0 :: byte] < 4
   \<and> ip_parse_header [0x45, 0, 0] = Inl StructError
   \<and> IPPacket [0x45, 0, 0] = Inl StructError
   \<and> TCPPacket [0x45, 0, 0] = Inl StructError
   \<and> UDPPacket [0x45, 0, 0] = Inl StructError
   \<and> ICMPPacket [0x45, 0, 0] = Inl StructError
   \<and> 4 \<le> length [8, 0, 0, 0, 0 :: byte]
   \<and> (\<exists>i. ICMPPacket [8, 0, 0, 0, 0] = Inr i)"
  using short_slice_raises [of "[0x45, 0, 0]"] short_slice_raises [of "[8, 0, 0, 0, 0]"]
  by simp

text \<open>
  C3. The flow-key extractor returns no key when the payload of the IPPacket is not a TCP
  packet. When the payload is a TCP packet it returns (source address, source port,
  destination address, destination port) with the direction flag unset, and the reversed
  tuple (destination address, destination port, source address, source port) with the
  flag set: the branch for the set flag assigns the reversed tuple and the final
  \<^verbatim>\<open>return tup\<close> returns it.
\<close>

theorem to_tuple_flow_key:
  "((\<forall>t. ip_get_payload p \<noteq> Some (TCP t)) \<longrightarrow> to_tuple p flip = None)
   \<and> (ip_get_payload p = Some (TCP t) \<longrightarrow>
        to_tuple p False
          = Some (ip_src_ip p, tcp_get_src_port t, ip_dst_ip p, tcp_get_dst_port t)
      \<and> to_tuple p True
          = Some (ip_dst_ip p, tcp_get_dst_port t, ip_src_ip p, tcp_get_src_port t))"
  by (auto simp: to_tuple_def tcp_get_src_port_def tcp_get_dst_port_def
      split: option.splits payload.splits)

text \<open>The TCP datagram gives both keys of the scenario; the UDP datagram gives no key.\<close>

theorem to_tuple_flow_key_witness:
  "ip_get_payload (projr (IPPacket example_tcp_datagram))
     = Some (TCP (projr (TCPPacket (drop 20 example_tcp_datagram))))
   \<and> to_tuple (projr (IPPacket example_tcp_datagram)) False
     = Some (''10.0.0.1'', 54321, ''10.0.0.2'', 80)
   \<and> to_tuple (projr (IPPacket example_tcp_datagram)) True
     = Some (''10.0.0.2'', 80, ''10.0.0.1'', 54321)
   \<and> (\<forall>t. ip_get_payload (projr (IPPacket example_udp_datagram)) \<noteq> Some (TCP t))
   \<and> to_tuple (projr (IPPacket example_udp_datagram)) False = None
   \<and> to_tuple (projr (IPPacket example_udp_datagram)) True = None"
proof -
  have t: "ip_get_payload (projr (IPPacket example_tcp_datagram))
     = Some (TCP (projr (TCPPacket (drop 20 example_tcp_datagram))))"
    by (simp add: ip_get_payload_def example_tcp_decoded)
  have u: "\<forall>t. ip_get_payload (projr (IPPacket example_udp_datagram)) \<noteq> Some (TCP t)"
    by (simp add: ip_get_payload_def example_udp_decoded)
  show ?thesis
    using t u
      to_tuple_flow_key [of "projr (IPPacket example_tcp_datagram)" False
        "projr (TCPPacket (drop 20 example_tcp_datagram))"]
      to_tuple_flow_key [of "projr (IPPacket example_udp_datagram)" False]
      to_tuple_flow_key [of "projr (IPPacket example_udp_datagram)" True]
    by (simp add: example_tcp_decoded tcp_get_src_port_def tcp_get_dst_port_def)
qed

text \<open>
  C4. Claimed: on an IPPacket with a TCP payload the extractor returns the same tuple
  whether the flip flag is set or not. On the decoded TCP datagram the two results differ.
\<close>

theorem flip_changes_flow_key:
  "IPPacket example_tcp_datagram = Inr (projr (IPPacket example_tcp_datagram))
   \<and> ip_get_payload (projr (IPPacket example_tcp_datagram))
     = Some (TCP (projr (TCPPacket (drop 20 example_tcp_datagram))))
   \<and> to_tuple (projr (IPPacket example_tcp_datagram)) True
     \<noteq> to_tuple (projr (IPPacket example_tcp_datagram)) False"
  using example_tcp_is_decoded
  by (simp add: to_tuple_def ip_get_payload_def example_tcp_decoded)

text \<open>
  C4, as the code has it: the result with the flag set is the result with the flag unset
  with its two endpoints exchanged; on a TCP payload the two are equal exactly when the
  source and destination addresses are equal and the source and destination ports are
  equal.
\<close>

theorem flip_swaps_endpoints:
  "to_tuple p True = map_option (\<lambda>(a, b, c, d). (c, d, a, b)) (to_tuple p False)
   \<and> (ip_get_payload p = Some (TCP t) \<longrightarrow>
        (to_tuple p True = to_tuple p False)
          = (ip_src_ip p = ip_dst_ip p \<and> tcp_src_port t = tcp_dst_port t))"
proof (cases "ip_get_payload p")
  case None
  then show ?thesis
    by (simp add: to_tuple_def)
next
  case (Some pl)
  then show ?thesis
    by (cases pl) (auto simp: to_tuple_def)
qed

theorem flip_swaps_endpoints_witness:
  "ip_get_payload (projr (IPPacket example_tcp_datagram))
     = Some (TCP (projr (TCPPacket (drop 20 example_tcp_datagram))))
   \<and> to_tuple (projr (IPPacket example_tcp_datagram)) True
     = map_option (\<lambda>(a, b, c, d). (c, d, a, b))
         (to_tuple (projr (IPPacket example_tcp_datagram)) False)
   \<and> (to_tuple (projr (IPPacket example_tcp_datagram)) True
        = to_tuple (projr (IPPacket example_tcp_datagram)) False) = False"
proof -
  have t: "ip_get_payload (projr (IPPacket example_tcp_datagram))
     = Some (TCP (projr (TCPPacket (drop 20 example_tcp_datagram))))"
    by (simp add: ip_get_payload_def example_tcp_decoded)
  show ?thesis
    using t flip_swaps_endpoints [of "projr (IPPacket example_tcp_datagram)"
        "projr (TCPPacket (drop 20 example_tcp_datagram))"]
    by (auto simp: example_tcp_decoded)
qed

text \<open>
  C5. Claimed: the summary looks the code name up by the pair (type, code) and prints
  ``Unknown'' exactly when that pair is not in the code table. The summary looks
  \<^verbatim>\<open>ICMP_CODES\<close> up with the code alone, an integer, and every key of that table is a
  pair, so the code name is always ``Unknown''. The type name is looked up by the type, as
  claimed.
\<close>

lemma icmp_code_name_unknown: "dict_get ICMP_CODES (IntKey c) ''Unknown'' = ''Unknown''"
  by (simp add: dict_get_def ICMP_CODES_def)

lemma icmp_unicode_general:
  "icmp_unicode p =
     ''ICMP Type '' @ fmt_d (icmp_type p)
     @ '' ('' @ dict_get ICMP_TYPES (IntKey (icmp_type p)) ''Unknown''
     @ '') Code '' @ fmt_d (icmp_code p) @ '' (Unknown)''"
  by (simp add: icmp_unicode_def icmp_code_name_unknown)

text \<open>
  C5 at an echo reply (type 0, code 0): the pair (0, 0) is in the code table with the name
  ``Echo reply'', and the summary prints ``Unknown'' for the code.
\<close>

theorem icmp_code_name_never_found:
  "map_sum id icmp_unicode (ICMPPacket [0, 0, 0, 0, 0, 0, 0, 0])
     = Inr ''ICMP Type 0 (Echo Reply) Code 0 (Unknown)''
   \<and> map_of ICMP_CODES (TupleKey 0 0) = Some ''Echo reply''"
  by (simp add: ICMPPacket_def unpack_simps icmp_unicode_general fmt_d_small dict_get_def
      ICMP_TYPES_def ICMP_CODES_def)

text \<open>
  C6. Claimed: the decoded IPPacket of any buffer of at least 20 bytes has
  \<open>header_length() = IHL * 4\<close> with \<open>20 \<le> header_length() \<le> 60\<close>. The decoder stores
  the low nibble of byte 0 as it is. Below: a 20-byte datagram whose byte 0 is \<open>0x40\<close>
  (IHL 0, protocol 0); it is decoded, and its header length is 0.
\<close>

theorem ip_header_length_below_20:
  "20 \<le> length [0x40, 0x04, 0, 40, 0, 1, 0x40, 0, 64, 0, 0, 0, 10, 0, 0, 1, 10, 0, 0, 2 :: byte]
   \<and> \<not> isl (IPPacket [0x40, 0x04, 0, 40, 0, 1, 0x40, 0, 64, 0, 0, 0, 10, 0, 0, 1, 10, 0, 0, 2])
   \<and> ip_get_header_len
        (projr (IPPacket [0x40, 0x04, 0, 40, 0, 1, 0x40, 0, 64, 0, 0, 0, 10, 0, 0, 1, 10, 0, 0, 2]))
      = 0"
  using IPPacket_long [of "[0x40, 0x04, 0, 40, 0, 1, 0x40, 0, 64, 0, 0, 0, 10, 0, 0, 1, 10, 0, 0, 2]"]
  by (auto simp: payload_builder_def IPPROTO_TCP_def IPPROTO_UDP_def IPPROTO_ICMP_def
      ip_get_header_len_def ip_packet_of_header)

text \<open>
  C6, as the code has it: the IHL of a decoded IPPacket is the low nibble of byte 0, the
  header length is four times that, and it lies between 0 and 60.
\<close>

theorem ip_header_length_range:
  assumes "20 \<le> length buff" and "IPPacket buff = Inr p"
  shows "ip_ihl p = uint (take_bit 4 (buff ! 0))
     \<and> ip_get_header_len p = ip_ihl p * 4
     \<and> 0 \<le> ip_get_header_len p \<and> ip_get_header_len p \<le> 60"
proof -
  have "ip_ihl p = uint (buff ! 0) mod 16"
    using IPPacket_fields(1) [OF assms] .
  moreover have "uint (take_bit 4 (buff ! 0)) = uint (buff ! 0) mod 16"
    by (simp add: take_bit_eq_mod uint_mod)
  moreover have "0 \<le> uint (buff ! 0) mod 16" "uint (buff ! 0) mod 16 < 16"
    by simp_all
  ultimately show ?thesis
    by (simp add: ip_get_header_len_def)
qed

text \<open>Byte 0 is \<open>0x4F\<close>: IHL 15, header length 60.\<close>

theorem ip_header_length_range_witness:
  "20 \<le> length [0x4F, 0x04, 0, 40, 0, 1, 0x40, 0, 64, 0, 0, 0, 10, 0, 0, 1, 10, 0, 0, 2 :: byte]
   \<and> IPPacket [0x4F, 0x04, 0, 40, 0, 1, 0x40, 0, 64, 0, 0, 0, 10, 0, 0, 1, 10, 0, 0, 2]
      = Inr (projr (IPPacket
          [0x4F, 0x04, 0, 40, 0, 1, 0x40, 0, 64, 0, 0, 0, 10, 0, 0, 1, 10, 0, 0, 2]))
   \<and> ip_get_header_len (projr (IPPacket
          [0x4F, 0x04, 0, 40, 0, 1, 0x40, 0, 64, 0, 0, 0, 10, 0, 0, 1, 10, 0, 0, 2])) = 60
   \<and> ip_ihl (projr (IPPacket
          [0x4F, 0x04, 0, 40, 0, 1, 0x40, 0, 64, 0, 0, 0, 10, 0, 0, 1, 10, 0, 0, 2])) = 15"
proof -
  have h: "20 \<le> length [0x4F, 0x04, 0, 40, 0, 1, 0x40, 0, 64, 0, 0, 0, 10, 0, 0, 1, 10, 0, 0, 2 :: byte]"
    by simp
  have d: "IPPacket [0x4F, 0x04, 0, 40, 0, 1, 0x40, 0, 64, 0, 0, 0, 10, 0, 0, 1, 10, 0, 0, 2]
      = Inr (projr (IPPacket
          [0x4F, 0x04, 0, 40, 0, 1, 0x40, 0, 64, 0, 0, 0, 10, 0, 0, 1, 10, 0, 0, 2]))"
    using IPPacket_long [OF h]
    by (auto simp: payload_builder_def IPPROTO_TCP_def IPPROTO_UDP_def IPPROTO_ICMP_def)
  show ?thesis
    using h d ip_header_length_range [OF h d] by (simp add: unsigned_take_bit_eq)
qed

text \<open>
  C7. The dispatcher returns a TCP packet for protocol 6 on a slice of at least 20 bytes, a
  UDP packet for protocol 17 on at least 8 bytes, an ICMP packet for protocol 1 on at least
  4 bytes, and for every other protocol number the absent payload, which is a value and
  not an exception.
\<close>

theorem payload_builder_dispatch:
  "(20 \<le> length buff \<longrightarrow>
      (\<exists>t. TCPPacket buff = Inr t \<and> payload_builder buff 6 = Inr (Some (TCP t))))
   \<and> (8 \<le> length buff \<longrightarrow>
      (\<exists>u. UDPPacket buff = Inr u \<and> payload_builder buff 17 = Inr (Some (UDP u))))
   \<and> (4 \<le> length buff \<longrightarrow>
      (\<exists>i. ICMPPacket buff = Inr i \<and> payload_builder buff 1 = Inr (Some (ICMP i))))
   \<and> (protocol \<noteq> 6 \<and> protocol \<noteq> 17 \<and> protocol \<noteq> 1 \<longrightarrow>
      payload_builder buff protocol = Inr None)"
proof (intro conjI impI)
  assume "20 \<le> length buff"
  from TCPPacket_long [OF this] obtain t where "TCPPacket buff = Inr t" by (elim exE conjE)
  then show "\<exists>t. TCPPacket buff = Inr t \<and> payload_builder buff 6 = Inr (Some (TCP t))"
    by (simp add: payload_builder_def IPPROTO_TCP_def)
next
  assume "8 \<le> length buff"
  from UDPPacket_long [OF this] obtain u where "UDPPacket buff = Inr u" by (elim exE conjE)
  then show "\<exists>u. UDPPacket buff = Inr u \<and> payload_builder buff 17 = Inr (Some (UDP u))"
    by (simp add: payload_builder_def IPPROTO_TCP_def IPPROTO_UDP_def)
next
  assume "4 \<le> length buff"
  from ICMPPacket_long [OF this] obtain i where "ICMPPacket buff = Inr i" by (elim exE conjE)
  then show "\<exists>i. ICMPPacket buff = Inr i \<and> payload_builder buff 1 = Inr (Some (ICMP i))"
    by (simp add: payload_builder_def IPPROTO_TCP_def IPPROTO_UDP_def IPPROTO_ICMP_def)
next
  assume "protocol \<noteq> 6 \<and> protocol \<noteq> 17 \<and> protocol \<noteq> 1"
  then show "payload_builder buff protocol = Inr None"
    by (simp add: payload_builder_def IPPROTO_TCP_def IPPROTO_UDP_def IPPROTO_ICMP_def)
qed

theorem payload_builder_dispatch_witness:
  "20 \<le> length [0xD4, 0x31, 0, 80, 0, 0, 0, 1, 0, 0, 0, 2, 0x50, 0x18, 0x20, 0, 0, 0, 0, 0 :: byte]
   \<and> (\<exists>t. payload_builder
            [0xD4, 0x31, 0, 80, 0, 0, 0, 1, 0, 0, 0, 2, 0x50, 0x18, 0x20, 0, 0, 0, 0, 0] 6
          = Inr (Some (TCP t)))
   \<and> (\<exists>u. payload_builder
            [0xD4, 0x31, 0, 80, 0, 0, 0, 1, 0, 0, 0, 2, 0x50, 0x18, 0x20, 0, 0, 0, 0, 0] 17
          = Inr (Some (UDP u)))
   \<and> (\<exists>i. payload_builder
            [0xD4, 0x31, 0, 80, 0, 0, 0, 1, 0, 0, 0, 2, 0x50, 0x18, 0x20, 0, 0, 0, 0, 0] 1
          = Inr (Some (ICMP i)))
   \<and> (47 :: int) \<noteq> 6 \<and> (47 :: int) \<noteq> 17 \<and> (47 :: int) \<noteq> 1
   \<and> payload_builder
         [0xD4, 0x31, 0, 80, 0, 0, 0, 1, 0, 0, 0, 2, 0x50, 0x18, 0x20, 0, 0, 0, 0, 0] 47
       = Inr None"
proof -
  have h: "20 \<le> length [0xD4, 0x31, 0, 80, 0, 0, 0, 1, 0, 0, 0, 2, 0x50, 0x18, 0x20, 0, 0, 0, 0, 0 :: byte]"
    by simp
  show ?thesis
    using h payload_builder_dispatch
      [of "[0xD4, 0x31, 0, 80, 0, 0, 0, 1, 0, 0, 0, 2, 0x50, 0x18, 0x20, 0, 0, 0, 0, 0]" 47]
    by auto
qed

lemma mask_test_16:
  "(uint (w :: 16 word) AND uint (m :: 16 word) \<noteq> 0) = (w AND m \<noteq> 0)"
  by (simp add: uint_and [symmetric] uint_0_iff)

lemma flag_test:
  fixes a b :: byte and m :: "16 word"
  shows "((256 * uint a + uint b) AND uint m \<noteq> 0) = (word_cat a b AND m \<noteq> 0)"
  unfolding uint_flags_field [symmetric] by (rule mask_test_16)

lemma flag_tests:
  fixes a b :: byte
  shows "((256 * uint a + uint b) AND 0x0100 \<noteq> 0) = (word_cat a b AND (0x0100 :: 16 word) \<noteq> 0)"
    and "((256 * uint a + uint b) AND 0x0080 \<noteq> 0) = (word_cat a b AND (0x0080 :: 16 word) \<noteq> 0)"
    and "((256 * uint a + uint b) AND 0x0040 \<noteq> 0) = (word_cat a b AND (0x0040 :: 16 word) \<noteq> 0)"
    and "((256 * uint a + uint b) AND 0x0020 \<noteq> 0) = (word_cat a b AND (0x0020 :: 16 word) \<noteq> 0)"
    and "((256 * uint a + uint b) AND 0x0010 \<noteq> 0) = (word_cat a b AND (0x0010 :: 16 word) \<noteq> 0)"
    and "((256 * uint a + uint b) AND 0x0008 \<noteq> 0) = (word_cat a b AND (0x0008 :: 16 word) \<noteq> 0)"
    and "((256 * uint a + uint b) AND 0x0004 \<noteq> 0) = (word_cat a b AND (0x0004 :: 16 word) \<noteq> 0)"
    and "((256 * uint a + uint b) AND 0x0002 \<noteq> 0) = (word_cat a b AND (0x0002 :: 16 word) \<noteq> 0)"
    and "((256 * uint a + uint b) AND 0x0001 \<noteq> 0) = (word_cat a b AND (0x0001 :: 16 word) \<noteq> 0)"
  using flag_test [of a b "0x0100"] flag_test [of a b "0x0080"] flag_test [of a b "0x0040"]
    flag_test [of a b "0x0020"] flag_test [of a b "0x0010"] flag_test [of a b "0x0008"]
    flag_test [of a b "0x0004"] flag_test [of a b "0x0002"] flag_test [of a b "0x0001"]
  by simp_all

text \<open>
  C8. On every TCP slice of at least 20 bytes the decoder returns a packet, and each of its
  nine flag attributes is truthy (a nonzero integer) exactly when the 16-bit word spelled
  by bytes 12 and 13 has a nonzero bitwise AND with the mask of that flag:
  NS \<open>0x0100\<close>, CWR \<open>0x0080\<close>, ECE \<open>0x0040\<close>, URG \<open>0x0020\<close>, ACK \<open>0x0010\<close>, PSH \<open>0x0008\<close>,
  RST \<open>0x0004\<close>, SYN \<open>0x0002\<close>, FIN \<open>0x0001\<close>. (On a shorter slice there is no packet.)
\<close>

theorem tcp_flags_follow_masks:
  assumes "20 \<le> length buff"
  shows "\<exists>t. TCPPacket buff = Inr t
     \<and> (flag_ns t \<noteq> 0) = (word_cat (buff ! 12) (buff ! 13) AND (0x0100 :: 16 word) \<noteq> 0)
     \<and> (flag_cwr t \<noteq> 0) = (word_cat (buff ! 12) (buff ! 13) AND (0x0080 :: 16 word) \<noteq> 0)
     \<and> (flag_ece t \<noteq> 0) = (word_cat (buff ! 12) (buff ! 13) AND (0x0040 :: 16 word) \<noteq> 0)
     \<and> (flag_urg t \<noteq> 0) = (word_cat (buff ! 12) (buff ! 13) AND (0x0020 :: 16 word) \<noteq> 0)
     \<and> (flag_ack t \<noteq> 0) = (word_cat (buff ! 12) (buff ! 13) AND (0x0010 :: 16 word) \<noteq> 0)
     \<and> (flag_psh t \<noteq> 0) = (word_cat (buff ! 12) (buff ! 13) AND (0x0008 :: 16 word) \<noteq> 0)
     \<and> (flag_rst t \<noteq> 0) = (word_cat (buff ! 12) (buff ! 13) AND (0x0004 :: 16 word) \<noteq> 0)
     \<and> (flag_syn t \<noteq> 0) = (word_cat (buff ! 12) (buff ! 13) AND (0x0002 :: 16 word) \<noteq> 0)
     \<and> (flag_fin t \<noteq> 0) = (word_cat (buff ! 12) (buff ! 13) AND (0x0001 :: 16 word) \<noteq> 0)"
  using TCPPacket_long [OF assms]
  apply (elim exE conjE)
  subgoal for t
    apply (rule exI [of _ t])
    apply (simp only: flag_tests simp_thms)
    done
  done

text \<open>The field \<open>0x5018\<close>: ACK and PSH are set, the seven other flags are clear.\<close>

theorem tcp_flags_follow_masks_witness:
  "20 \<le> length [0xD4, 0x31, 0, 80, 0, 0, 0, 1, 0, 0, 0, 2, 0x50, 0x18, 0x20, 0, 0, 0, 0, 0 :: byte]
   \<and> (\<exists>t. TCPPacket [0xD4, 0x31, 0, 80, 0, 0, 0, 1, 0, 0, 0, 2, 0x50, 0x18, 0x20, 0, 0, 0, 0, 0] = Inr t
        \<and> flag_ns t = 0 \<and> flag_cwr t = 0 \<and> flag_ece t = 0 \<and> flag_urg t = 0
        \<and> flag_ack t \<noteq> 0 \<and> flag_psh t \<noteq> 0
        \<and> flag_rst t = 0 \<and> flag_syn t = 0 \<and> flag_fin t = 0)"
proof -
  have h: "20 \<le> length [0xD4, 0x31, 0, 80, 0, 0, 0, 1, 0, 0, 0, 2, 0x50, 0x18, 0x20, 0, 0, 0, 0, 0 :: byte]"
    by simp
  have c: "(word_cat (0x50 :: byte) (0x18 :: byte) :: 16 word) = 0x5018"
    by (simp add: word_cat_eq)
  show ?thesis
    using h tcp_flags_follow_masks [OF h] by (simp add: c)
qed

text \<open>
  C9. Claimed: dscp is the top 5 bits of byte 1 and ecn its bottom 2 bits, so ecn is at
  most 3. The decoder masks byte 1 with \<open>0x7\<close>, which keeps three bits. Below: byte 1 is
  \<open>0x04\<close>; its bottom two bits are 0 and the decoded ecn is 4.
\<close>

theorem ip_ecn_exceeds_two_bits:
  "20 \<le> length [0x45, 0x04, 0, 40, 0, 1, 0x40, 0, 64, 0, 0, 0, 10, 0, 0, 1, 10, 0, 0, 2 :: byte]
   \<and> \<not> isl (IPPacket [0x45, 0x04, 0, 40, 0, 1, 0x40, 0, 64, 0, 0, 0, 10, 0, 0, 1, 10, 0, 0, 2])
   \<and> ip_ecn (projr (IPPacket
        [0x45, 0x04, 0, 40, 0, 1, 0x40, 0, 64, 0, 0, 0, 10, 0, 0, 1, 10, 0, 0, 2])) = 4
   \<and> uint (take_bit 2
        ([0x45, 0x04, 0, 40, 0, 1, 0x40, 0, 64, 0, 0, 0, 10, 0, 0, 1, 10, 0, 0, 2 :: byte] ! 1)) = 0"
  using IPPacket_long [of "[0x45, 0x04, 0, 40, 0, 1, 0x40, 0, 64, 0, 0, 0, 10, 0, 0, 1, 10, 0, 0, 2]"]
  by (auto simp: payload_builder_def IPPROTO_TCP_def IPPROTO_UDP_def IPPROTO_ICMP_def
      ip_packet_of_header)

text \<open>
  C9, as the code has it: dscp is the top 5 bits of byte 1 (the byte shifted right by 3)
  and ecn is the bottom 3 bits of byte 1, so ecn is at most 7.
\<close>

theorem ip_dscp_ecn_split:
  assumes "20 \<le> length buff" and "IPPacket buff = Inr p"
  shows "ip_dscp p = uint (drop_bit 3 (buff ! 1))
     \<and> ip_ecn p = uint (take_bit 3 (buff ! 1))
     \<and> 0 \<le> ip_ecn p \<and> ip_ecn p \<le> 7"
proof -
  have "ip_dscp p = uint (buff ! 1) div 8" "ip_ecn p = uint (buff ! 1) mod 8"
    using IPPacket_fields(2,3) [OF assms] by simp_all
  moreover have "uint (drop_bit 3 (buff ! 1)) = uint (buff ! 1) div 8"
    by (simp add: drop_bit_eq_div uint_div)
  moreover have "uint (take_bit 3 (buff ! 1)) = uint (buff ! 1) mod 8"
    by (simp add: take_bit_eq_mod uint_mod)
  moreover have "0 \<le> uint (buff ! 1) mod 8" "uint (buff ! 1) mod 8 < 8"
    by simp_all
  ultimately show ?thesis
    by simp
qed

text \<open>Byte 1 is \<open>0xBD\<close>, in binary 10111 101: dscp 23, ecn 5.\<close>

theorem ip_dscp_ecn_split_witness:
  "20 \<le> length [0x45, 0xBD, 0, 40, 0, 1, 0x40, 0, 64, 0, 0, 0, 10, 0, 0, 1, 10, 0, 0, 2 :: byte]
   \<and> IPPacket [0x45, 0xBD, 0, 40, 0, 1, 0x40, 0, 64, 0, 0, 0, 10, 0, 0, 1, 10, 0, 0, 2]
      = Inr (projr (IPPacket
          [0x45, 0xBD, 0, 40, 0, 1, 0x40, 0, 64, 0, 0, 0, 10, 0, 0, 1, 10, 0, 0, 2]))
   \<and> ip_dscp (projr (IPPacket
          [0x45, 0xBD, 0, 40, 0, 1, 0x40, 0, 64, 0, 0, 0, 10, 0, 0, 1, 10, 0, 0, 2])) = 23
   \<and> ip_ecn (projr (IPPacket
          [0x45, 0xBD, 0, 40, 0, 1, 0x40, 0, 64, 0, 0, 0, 10, 0, 0, 1, 10, 0, 0, 2])) = 5"
proof -
  have h: "20 \<le> length [0x45, 0xBD, 0, 40, 0, 1, 0x40, 0, 64, 0, 0, 0, 10, 0, 0, 1, 10, 0, 0, 2 :: byte]"
    by simp
  have d: "IPPacket [0x45, 0xBD, 0, 40, 0, 1, 0x40, 0, 64, 0, 0, 0, 10, 0, 0, 1, 10, 0, 0, 2]
      = Inr (projr (IPPacket
          [0x45, 0xBD, 0, 40, 0, 1, 0x40, 0, 64, 0, 0, 0, 10, 0, 0, 1, 10, 0, 0, 2]))"
    using IPPacket_long [OF h]
    by (auto simp: payload_builder_def IPPROTO_TCP_def IPPROTO_UDP_def IPPROTO_ICMP_def)
  show ?thesis
    using h d ip_dscp_ecn_split [OF h d] by (simp add: unsigned_drop_bit_eq unsigned_take_bit_eq)
qed

text \<open>
  C10. Claimed: when the protocol field selects a transport decoder and the slice after the
  IP header is too short for it, IP decoding still yields an IPPacket. The constructor
  calls the dispatcher without catching anything, so the exception of the transport
  decoder ends the construction. Below: a 20-byte datagram with header length 20 and
  protocol 6, whose TCP slice is empty.
\<close>

theorem ip_packet_aborted_by_truncated_payload:
  "IPPacket [0x45, 0, 0, 20, 0, 1, 0x40, 0, 64, 6, 0, 0, 10, 0, 0, 1, 10, 0, 0, 2]
     = Inl StructError
   \<and> 20 \<le> length [0x45, 0, 0, 20, 0, 1, 0x40, 0, 64, 6, 0, 0, 10, 0, 0, 1, 10, 0, 0, 2 :: byte]"
  using IPPacket_long [of "[0x45, 0, 0, 20, 0, 1, 0x40, 0, 64, 6, 0, 0, 10, 0, 0, 1, 10, 0, 0, 2]"]
  by (auto simp: payload_builder_def IPPROTO_TCP_def TCPPacket_short)

lemma header_bytes: "nat (uint (b :: byte) mod 16 * 4) = 4 * (unat b mod 16)"
  by (simp add: nat_mod_distrib nat_mult_distrib)

lemma payload_builder_short:
  "(protocol = 6 \<and> length rest < 20) \<or> (protocol = 17 \<and> length rest < 8)
     \<or> (protocol = 1 \<and> length rest < 4) \<Longrightarrow>
   payload_builder rest protocol = Inl StructError"
  by (auto simp: payload_builder_def IPPROTO_TCP_def IPPROTO_UDP_def IPPROTO_ICMP_def
      TCPPacket_short UDPPacket_short ICMPPacket_short)

text \<open>
  C10, as the code has it: for a buffer of at least 20 bytes the header is parsed, and when
  the protocol is 6, 17 or 1 and the slice after the header (from byte IHL * 4 on) is
  shorter than 20, 8 or 4 bytes respectively, the constructor raises \<^verbatim>\<open>struct.error\<close>
  and no IPPacket is returned.
\<close>

theorem truncated_payload_aborts_ip_packet:
  assumes "20 \<le> length buff"
    and "rest = drop (4 * (unat (buff ! 0) mod 16)) buff"
    and "(uint (buff ! 9) = 6 \<and> length rest < 20) \<or> (uint (buff ! 9) = 17 \<and> length rest < 8)
         \<or> (uint (buff ! 9) = 1 \<and> length rest < 4)"
  shows "(\<exists>h. ip_parse_header buff = Inr h) \<and> IPPacket buff = Inl StructError"
proof -
  from IPPacket_long [OF assms(1)] obtain h where h: "ip_parse_header buff = Inr h"
    and p: "IPPacket buff =
        (case payload_builder (drop (nat (uint (buff ! 0) mod 16 * 4)) buff) (uint (buff ! 9)) of
           Inl e \<Rightarrow> Inl e
         | Inr pl \<Rightarrow> Inr (ip_header.extend h (ip_packet.fields pl)))"
    by (elim exE conjE)
  have "payload_builder rest (uint (buff ! 9)) = Inl StructError"
    using assms(3) by (rule payload_builder_short)
  with h p assms(2) show ?thesis
    by (simp add: header_bytes)
qed

text \<open>A UDP datagram cut after four bytes of its UDP header.\<close>

theorem truncated_payload_aborts_ip_packet_witness:
  "20 \<le> length [0x45, 0, 0, 28, 0, 1, 0x40, 0, 64, 17, 0, 0, 10, 0, 0, 1, 10, 0, 0, 2,
                 0, 53, 0, 53 :: byte]
   \<and> drop (4 * (unat ([0x45, 0, 0, 28, 0, 1, 0x40, 0, 64, 17, 0, 0, 10, 0, 0, 1, 10, 0, 0, 2,
                       0, 53, 0, 53 :: byte] ! 0) mod 16))
        [0x45, 0, 0, 28, 0, 1, 0x40, 0, 64, 17, 0, 0, 10, 0, 0, 1, 10, 0, 0, 2, 0, 53, 0, 53 :: byte]
      = [0, 53, 0, 53]
   \<and> IPPacket [0x45, 0, 0, 28, 0, 1, 0x40, 0, 64, 17, 0, 0, 10, 0, 0, 1, 10, 0, 0, 2,
               0, 53, 0, 53]
      = Inl StructError"
proof -
  have h: "20 \<le> length [0x45, 0, 0, 28, 0, 1, 0x40, 0, 64, 17, 0, 0, 10, 0, 0, 1, 10, 0, 0, 2,
                 0, 53, 0, 53 :: byte]"
    by simp
  have r: "[0, 53, 0, 53 :: byte]
      = drop (4 * (unat ([0x45, 0, 0, 28, 0, 1, 0x40, 0, 64, 17, 0, 0, 10, 0, 0, 1, 10, 0, 0, 2,
                       0, 53, 0, 53 :: byte] ! 0) mod 16))
        [0x45, 0, 0, 28, 0, 1, 0x40, 0, 64, 17, 0, 0, 10, 0, 0, 1, 10, 0, 0, 2, 0, 53, 0, 53]"
    by simp
  have c: "(uint ([0x45, 0, 0, 28, 0, 1, 0x40, 0, 64, 17, 0, 0, 10, 0, 0, 1, 10, 0, 0, 2,
                       0, 53, 0, 53 :: byte] ! 9) = 6 \<and> length [0, 53, 0, 53 :: byte] < 20)
      \<or> (uint ([0x45, 0, 0, 28, 0, 1, 0x40, 0, 64, 17, 0, 0, 10, 0, 0, 1, 10, 0, 0, 2,
                       0, 53, 0, 53 :: byte] ! 9) = 17 \<and> length [0, 53, 0, 53 :: byte] < 8)
      \<or> (uint ([0x45, 0, 0, 28, 0, 1, 0x40, 0, 64, 17, 0, 0, 10, 0, 0, 1, 10, 0, 0, 2,
                       0, 53, 0, 53 :: byte] ! 9) = 1 \<and> length [0, 53, 0, 53 :: byte] < 4)"
    by simp
  show ?thesis
    using h r truncated_payload_aborts_ip_packet [OF h r c] by simp
qed

end
